theory Spec2Isabelle
  imports Complex_Main "HOL-Library.Sublist"
begin

section \<open>Data model (src/models/schemas.py)\<close>

text \<open>
  Python strings are modelled as \<open>string\<close> (lists of 8-bit characters, read as code
  points 0..255), Python's unbounded integers as \<open>int\<close>. A \<open>datetime\<close> is the number of
  microseconds since an arbitrary epoch (the resolution of Python's datetime).
\<close>

type_synonym datetime = int

datatype IssueType = TASK | STORY | BUG | EPIC | SUBTASK

datatype Priority = LOWEST | LOW | MEDIUM | HIGH | HIGHEST

datatype Status = TODO | IN_PROGRESS | IN_REVIEW | DONE | CLOSED

datatype WorkflowState =
    FETCHING_TICKET
  | ANALYZING_REQUIREMENTS
  | GENERATING_CODE
  | AWAITING_APPROVAL
  | INCORPORATING_FEEDBACK
  | COMPLETED
  | FAILED

datatype ApprovalStatus = PENDING | APPROVED | REJECTED

record JiraTicketData =
  key :: string
  summary :: string
  ticket_description :: "string option"
  issue_type :: IssueType
  priority :: Priority
  status :: Status
  assignee :: "string option"
  reporter :: "string option"
  labels :: "string list"
  components :: "string list"
  custom_fields :: "(string \<times> string) list"

record GenerationOptions =
  generate_tests :: bool
  code_style :: string
  framework :: string
  test_framework :: string
  include_documentation :: bool
  max_file_size :: int
  architecture_pattern :: "string option"
  database_type :: "string option"
  api_style :: "string option"

record UserContext =
  user_id :: string
  timestamp :: datetime
  ctx_session_id :: "string option"

record GeneratedFile =
  path :: string
  content :: string
  file_type :: string
  language :: string
  description :: string
  size_lines :: int

record TestResult =
  test_file :: string
  passed :: bool
  total_tests :: int
  passed_tests :: int
  failed_tests :: int
  test_output :: string
  test_errors :: "string list"

record GenerationResult =
  gr_success :: bool
  generated_files :: "GeneratedFile list"
  test_results :: "TestResult list"
  gr_processing_time_ms :: int
  gr_llm_tokens_used :: int
  error_message :: "string option"
  gr_warnings :: "string list"

record LLMResponse =
  llm_content :: string
  llm_tokens_used :: int
  model_used :: string
  finish_reason :: "string option"

record JiraCredentials =
  server_url :: string
  username :: string
  api_token :: string
  project_key :: "string option"

record JiraTicketAnalysis =
  analysis_ticket_key :: string
  requirements :: "string list"
  technical_specs :: "string list"
  acceptance_criteria :: "string list"
  complexity_score :: int
  estimated_files :: int
  suggested_technologies :: "string list"
  dependencies :: "string list"

record UserFeedback =
  feedback_text :: string
  specific_issues :: "string list"
  improvement_requests :: "string list"
  approval_status :: ApprovalStatus
  priority_changes :: "string list"

record CodeGenerationSession =
  session_id :: string
  ticket_key :: string
  current_state :: WorkflowState
  iteration_count :: int
  max_iterations :: int
  original_ticket :: "JiraTicketData option"
  ticket_analysis :: "JiraTicketAnalysis option"
  generated_code :: "GeneratedFile list"
  user_feedback_history :: "UserFeedback list"
  created_at :: datetime
  updated_at :: datetime
  total_tokens_used :: int
  error_messages :: "string list"

text \<open>
  \<open>session_config\<close> is \<open>Optional[Dict[str, Any]]\<close>; the only key the code reads is
  \<open>max_iterations\<close>, whose value the session model takes as an integer.
\<close>

record JiraAgentRequest =
  req_ticket_key :: string
  jira_credentials :: JiraCredentials
  generation_options :: GenerationOptions
  user_context :: UserContext
  session_config :: "(string \<rightharpoonup> int) option"

record ApprovalRequest =
  req_session_id :: string
  feedback :: UserFeedback

record JiraAgentResponse =
  resp_session_id :: string
  resp_current_state :: WorkflowState
  success :: bool
  message :: string
  resp_ticket_analysis :: "JiraTicketAnalysis option"
  resp_generated_code :: "GeneratedFile list"
  approval_required :: bool
  resp_iteration_count :: int
  estimated_completion :: "string option"
  processing_time_ms :: int
  tokens_used :: int
  warnings :: "string list"

section \<open>Python string helpers\<close>

text \<open>\<open>str(n)\<close> for an integer, as an f-string formats it.\<close>

fun str_nat :: "nat \<Rightarrow> string" where
  "str_nat n =
     (if n < 10 then [''0123456789'' ! n]
      else str_nat (n div 10) @ [''0123456789'' ! (n mod 10)])"

declare str_nat.simps [simp del]

definition str_int :: "int \<Rightarrow> string" where
  "str_int i = (if i < 0 then CHR ''-'' # str_nat (nat (- i)) else str_nat (nat i))"

text \<open>\<open>sep.join(xs)\<close>.\<close>

fun join :: "string \<Rightarrow> string list \<Rightarrow> string" where
  "join sep [] = []"
| "join sep [x] = x"
| "join sep (x # y # ys) = x @ sep @ join sep (y # ys)"

text \<open>\<open>s.split("\n")\<close>: the pieces between newlines; never an empty list.\<close>

fun split_nl :: "string \<Rightarrow> string list" where
  "split_nl [] = [[]]"
| "split_nl (c # cs) =
     (if c = CHR ''\<newline>'' then [] # split_nl cs
      else (case split_nl cs of l # ls \<Rightarrow> (c # l) # ls | [] \<Rightarrow> [[c]]))"

text \<open>The number of newline-delimited lines of a text: \<open>len(s.split("\n"))\<close>.\<close>

definition line_count :: "string \<Rightarrow> int" where
  "line_count s = int (length (split_nl s))"

section \<open>Collaborators\<close>

text \<open>
  A call to an external collaborator either raises (with the text of the exception) or
  returns a value.
\<close>

datatype 'a outcome = Raises string | Returns 'a

text \<open>
  \<open>BaseLLMService.generate_response(prompt, system_message, max_tokens)\<close>.
\<close>

type_synonym llm = "string \<Rightarrow> string \<Rightarrow> int \<Rightarrow> LLMResponse outcome"

record Collaborators =
  jira_initialize :: "JiraCredentials \<Rightarrow> bool outcome"
  fetch_ticket :: "string \<Rightarrow> JiraTicketData option outcome"
  analyze_ticket :: "JiraTicketData \<Rightarrow> JiraTicketAnalysis option outcome"
  generate_code_from_requirements ::
    "string list \<Rightarrow> string list \<Rightarrow> GenerationOptions \<Rightarrow> GenerationResult outcome"

section \<open>JiraAgentWorkflowService (src/services/jira_agent_workflow.py)\<close>

text \<open>
  The service holds the dictionary of sessions and the optional LLM client. A session
  object is shared by reference between the dictionary and the local variable of the
  running operation, so every field assignment is a write to the dictionary entry.
\<close>

type_synonym session_map = "string \<rightharpoonup> CodeGenerationSession"

record WorkflowService =
  sessions :: session_map
  llm_service :: "llm option"

text \<open>
  The source computes durations in floating point. A Python float is an IEEE 754 double;
  each division and multiplication is the exact result rounded to the nearest double, ties
  to even. The values are rationals here, and \<open>round_double\<close> is that rounding (for the
  normal range, which durations of datetimes never leave): a double has 53 significant
  bits, so a value between \<open>2^e\<close> and \<open>2^(e+1)\<close> is rounded to a multiple of \<open>2^(e-52)\<close>.
\<close>

function bit_length :: "int \<Rightarrow> int" where
  "bit_length n = (if n \<le> 0 then 0 else 1 + bit_length (n div 2))"
  by pat_completeness auto
termination
  by (relation "measure nat") auto

declare bit_length.simps [simp del]

definition pow2 :: "int \<Rightarrow> rat" where
  "pow2 e = (if 0 \<le> e then 2 ^ nat e else 1 / 2 ^ nat (- e))"

text \<open>The \<open>e\<close> with \<open>2^e \<le> x < 2^(e+1)\<close>, for a positive \<open>x\<close>.\<close>

definition floor_log2 :: "rat \<Rightarrow> int" where
  "floor_log2 x =
     (let (n, d) = quotient_of x;
          e = bit_length n - bit_length d
      in if pow2 e \<le> x then e else e - 1)"

definition round_half_even :: "rat \<Rightarrow> int" where
  "round_half_even x =
     (let f = \<lfloor>x\<rfloor>; r = x - of_int f
      in if r < 1 / 2 then f else if 1 / 2 < r then f + 1 else if even f then f else f + 1)"

definition round_double :: "rat \<Rightarrow> rat" where
  "round_double x =
     (if x = 0 then 0
      else (let a = \<bar>x\<bar>; u = pow2 (floor_log2 a - 52)
            in sgn x * of_int (round_half_even (a / u)) * u))"

text \<open>
  \<open>timedelta.total_seconds()\<close> of a difference of \<open>d\<close> microseconds: the true division
  \<open>d / 10**6\<close>.
\<close>

definition total_seconds :: "int \<Rightarrow> rat" where
  "total_seconds d = round_double (of_int d / 1000000)"

text \<open>\<open>int(x)\<close> of a float: truncation towards zero.\<close>

definition int_trunc :: "rat \<Rightarrow> int" where
  "int_trunc x = (if 0 \<le> x then \<lfloor>x\<rfloor> else - \<lfloor>- x\<rfloor>)"

text \<open>\<open>int((datetime.now() - created_at).total_seconds() * 1000)\<close>.\<close>

definition elapsed_ms :: "datetime \<Rightarrow> datetime \<Rightarrow> int" where
  "elapsed_ms now created = int_trunc (round_double (total_seconds (now - created) * 1000))"

definition update_session :: "session_map \<Rightarrow> datetime \<Rightarrow> CodeGenerationSession \<Rightarrow> session_map" where
  "update_session ss now s = ss(session_id s \<mapsto> s\<lparr>updated_at := now\<rparr>)"

definition create_error_response ::
  "session_map \<Rightarrow> string \<Rightarrow> string \<Rightarrow> JiraAgentResponse \<times> session_map" where
  "create_error_response ss sid error_msg =
     (\<lparr>resp_session_id = sid,
       resp_current_state = FAILED,
       success = False,
       message = error_msg,
       resp_ticket_analysis = None,
       resp_generated_code = [],
       approval_required = False,
       resp_iteration_count = 0,
       estimated_completion = None,
       processing_time_ms = 0,
       tokens_used = 0,
       warnings = [error_msg]\<rparr>,
      (case ss sid of
         None \<Rightarrow> ss
       | Some s \<Rightarrow> ss(sid \<mapsto> s\<lparr>current_state := FAILED,
                                 error_messages := error_messages s @ [error_msg]\<rparr>)))"

definition build_improvement_prompt :: "CodeGenerationSession \<Rightarrow> UserFeedback \<Rightarrow> string" where
  "build_improvement_prompt session fb =
     (let current_files =
            join ''\<newline>\<newline>''
              (map (\<lambda>f. ''**File: '' @ path f @ ''**\<newline>```'' @ language f @ ''\<newline>''
                          @ content f @ ''\<newline>```'')
                   (generated_code session))
      in ''\<newline>        Improve the following code based on user feedback:\<newline>\<newline>''
         @ ''        **Current Code:**\<newline>        '' @ current_files @ ''\<newline>\<newline>''
         @ ''        **User Feedback:**\<newline>        '' @ feedback_text fb @ ''\<newline>\<newline>''
         @ ''        **Specific Issues to Address:**\<newline>        ''
         @ join ''\<newline>'' (map (\<lambda>issue. ''- '' @ issue) (specific_issues fb)) @ ''\<newline>\<newline>''
         @ ''        **Improvement Requests:**\<newline>        ''
         @ join ''\<newline>'' (map (\<lambda>req. ''- '' @ req) (improvement_requests fb)) @ ''\<newline>\<newline>''
         @ ''        **Priority Changes:**\<newline>        ''
         @ join ''\<newline>'' (map (\<lambda>change. ''- '' @ change) (priority_changes fb)) @ ''\<newline>\<newline>''
         @ ''        Please provide the improved code addressing all feedback points while maintaining the original functionality.\<newline>        '')"

definition improved_file :: "string \<Rightarrow> GeneratedFile \<Rightarrow> GeneratedFile" where
  "improved_file response original_file =
     \<lparr>path = path original_file,
      content = ''// Improved based on user feedback\<newline>'' @ content original_file
                @ ''\<newline>\<newline>// Additional improvements:\<newline>// '' @ take 200 response @ ''...'',
      file_type = file_type original_file,
      language = language original_file,
      description = ''Improved version: '' @ description original_file,
      size_lines = size_lines original_file + 5\<rparr>"

definition parse_improved_code_response :: "string \<Rightarrow> GeneratedFile list \<Rightarrow> GeneratedFile list" where
  "parse_improved_code_response response original_files =
     map (improved_file response) original_files"

definition improver_system_message :: string where
  "improver_system_message =
     ''You are an expert code improver. Take user feedback and improve the existing code accordingly.''"

text \<open>
  \<open>_regenerate_code_with_feedback\<close>: returns the new file list and the session (whose
  token counter the call may have advanced). Every exception (no LLM client, a failing
  LLM call) is caught and yields the empty list.
\<close>

definition regenerate_code_with_feedback ::
  "llm option \<Rightarrow> CodeGenerationSession \<Rightarrow> UserFeedback
     \<Rightarrow> GeneratedFile list \<times> CodeGenerationSession" where
  "regenerate_code_with_feedback llm_opt session fb =
     (case llm_opt of
        None \<Rightarrow> ([], session)
      | Some llm \<Rightarrow>
          (case llm (build_improvement_prompt session fb) improver_system_message 3000 of
             Raises e \<Rightarrow> ([], session)
           | Returns llm_response \<Rightarrow>
               (let session' = session\<lparr>total_tokens_used :=
                                 total_tokens_used session + llm_tokens_used llm_response\<rparr>
                in (parse_improved_code_response (llm_content llm_response)
                      (generated_code session'), session'))))"

text \<open>
  Returning \<open>self._create_error_response(session_id, msg)\<close> from an operation.
\<close>

definition error_result ::
  "WorkflowService \<Rightarrow> session_map \<Rightarrow> string \<Rightarrow> string
     \<Rightarrow> JiraAgentResponse \<times> WorkflowService" where
  "error_result svc ss sid error_msg =
     (let (r, ss') = create_error_response ss sid error_msg in (r, svc\<lparr>sessions := ss'\<rparr>))"

text \<open>
  \<open>handle_user_approval\<close>. The body of the \<open>try\<close> cannot raise (the LLM call is
  guarded inside \<open>_regenerate_code_with_feedback\<close>), so its \<open>except\<close> branch has no
  counterpart here.
\<close>

definition handle_user_approval ::
  "WorkflowService \<Rightarrow> datetime \<Rightarrow> ApprovalRequest \<Rightarrow> JiraAgentResponse \<times> WorkflowService" where
  "handle_user_approval svc now approval_request =
     (let sid = req_session_id approval_request in
      case sessions svc sid of
        None \<Rightarrow> error_result svc (sessions svc) sid ''Session not found''
      | Some session0 \<Rightarrow>
          (let fb = feedback approval_request;
               session = session0\<lparr>user_feedback_history := user_feedback_history session0 @ [fb]\<rparr>;
               ss = (sessions svc)(sid \<mapsto> session)
           in
           if approval_status fb = APPROVED then
             (let session = session\<lparr>current_state := COMPLETED\<rparr>;
                  ss = update_session (ss(sid \<mapsto> session)) now session
              in (\<lparr>resp_session_id = sid,
                    resp_current_state = COMPLETED,
                    success = True,
                    message = ''Code approved and finalized successfully!'',
                    resp_ticket_analysis = None,
                    resp_generated_code = generated_code session,
                    approval_required = False,
                    resp_iteration_count = iteration_count session,
                    estimated_completion = None,
                    processing_time_ms = elapsed_ms now (created_at session),
                    tokens_used = total_tokens_used session,
                    warnings = []\<rparr>,
                  svc\<lparr>sessions := ss\<rparr>))
           else if approval_status fb = REJECTED then
             (if iteration_count session \<ge> max_iterations session then
                (let session = session\<lparr>current_state := FAILED\<rparr>;
                     ss = update_session (ss(sid \<mapsto> session)) now session
                 in error_result svc ss sid
                      (''Maximum iterations ('' @ str_int (max_iterations session)
                         @ '') reached without approval''))
              else
                (let session = session\<lparr>current_state := INCORPORATING_FEEDBACK,
                                        iteration_count := iteration_count session + 1,
                                        updated_at := now\<rparr>;
                     ss = update_session (ss(sid \<mapsto> session)) now session;
                     (improved_code, session) =
                        regenerate_code_with_feedback (llm_service svc) session fb;
                     ss = ss(sid \<mapsto> session)
                 in
                 if improved_code = [] then
                   error_result svc ss sid ''Failed to regenerate code with feedback''
                 else
                   (let session = session\<lparr>generated_code := improved_code,
                                           current_state := AWAITING_APPROVAL\<rparr>;
                        ss = update_session (ss(sid \<mapsto> session)) now session
                    in (\<lparr>resp_session_id = sid,
                          resp_current_state = AWAITING_APPROVAL,
                          success = True,
                          message = ''Code regenerated with your feedback (iteration ''
                                    @ str_int (iteration_count session)
                                    @ ''). Please review again.'',
                          resp_ticket_analysis = None,
                          resp_generated_code = improved_code,
                          approval_required = True,
                          resp_iteration_count = iteration_count session,
                          estimated_completion = None,
                          processing_time_ms = elapsed_ms now (created_at session),
                          tokens_used = total_tokens_used session,
                          warnings = []\<rparr>,
                        svc\<lparr>sessions := ss\<rparr>))))
           else error_result svc ss sid ''Invalid approval status''))"

text \<open>
  \<open>_generate_code_from_analysis\<close>: the generator's files when it reports success, the
  empty list when it reports failure or raises.
\<close>

definition generate_code_from_analysis ::
  "Collaborators \<Rightarrow> JiraTicketAnalysis \<Rightarrow> GenerationOptions \<Rightarrow> GeneratedFile list" where
  "generate_code_from_analysis env analysis options =
     (case generate_code_from_requirements env (requirements analysis)
             (technical_specs analysis) options of
        Raises e \<Rightarrow> []
      | Returns generation_result \<Rightarrow>
          (if gr_success generation_result then generated_files generation_result else []))"

definition new_session :: "string \<Rightarrow> string \<Rightarrow> int \<Rightarrow> datetime \<Rightarrow> CodeGenerationSession" where
  "new_session sid tkey max_it now =
     \<lparr>session_id = sid,
      ticket_key = tkey,
      current_state = FETCHING_TICKET,
      iteration_count = 1,
      max_iterations = max_it,
      original_ticket = None,
      ticket_analysis = None,
      generated_code = [],
      user_feedback_history = [],
      created_at = now,
      updated_at = now,
      total_tokens_used = 0,
      error_messages = []\<rparr>"

text \<open>
  \<open>start_jira_agent_process\<close>. \<open>sid\<close> is the fresh \<open>uuid4\<close>. Every exception of the
  \<open>try\<close> body (a collaborator that raises, \<open>session_config\<close> being \<open>None\<close>) reaches the
  \<open>except\<close> branch, which answers \<open>Process failed: ...\<close>.
\<close>

definition start_jira_agent_process ::
  "WorkflowService \<Rightarrow> Collaborators \<Rightarrow> datetime \<Rightarrow> string \<Rightarrow> JiraAgentRequest
     \<Rightarrow> JiraAgentResponse \<times> WorkflowService" where
  "start_jira_agent_process svc env now sid request =
     (case session_config request of
        None \<Rightarrow>
          error_result svc (sessions svc) sid
            (''Process failed: '' @ [CHR 0x27] @ ''NoneType'' @ [CHR 0x27]
               @ '' object has no attribute '' @ [CHR 0x27] @ ''get'' @ [CHR 0x27])
      | Some cfg \<Rightarrow>
          (let session = new_session sid (req_ticket_key request)
                           (case cfg ''max_iterations'' of None \<Rightarrow> 5 | Some m \<Rightarrow> m) now;
               ss = (sessions svc)(sid \<mapsto> session)
           in
           case jira_initialize env (jira_credentials request) of
             Raises e \<Rightarrow> error_result svc ss sid (''Process failed: '' @ e)
           | Returns initialized \<Rightarrow>
               if \<not> initialized then error_result svc ss sid ''Failed to initialize JIRA client''
               else
                 (let session = session\<lparr>current_state := FETCHING_TICKET\<rparr>;
                      ss = ss(sid \<mapsto> session)
                  in
                  case fetch_ticket env (req_ticket_key request) of
                    Raises e \<Rightarrow> error_result svc ss sid (''Process failed: '' @ e)
                  | Returns None \<Rightarrow>
                      error_result svc ss sid
                        (''Failed to fetch ticket: '' @ req_ticket_key request)
                  | Returns (Some ticket_data) \<Rightarrow>
                      (let session = session\<lparr>original_ticket := Some ticket_data,
                                              current_state := ANALYZING_REQUIREMENTS\<rparr>;
                           ss = update_session (ss(sid \<mapsto> session)) now session
                       in
                       case analyze_ticket env ticket_data of
                         Raises e \<Rightarrow> error_result svc ss sid (''Process failed: '' @ e)
                       | Returns None \<Rightarrow>
                           error_result svc ss sid ''Failed to analyze ticket requirements''
                       | Returns (Some analysis) \<Rightarrow>
                           (let session = session\<lparr>ticket_analysis := Some analysis,
                                                   current_state := GENERATING_CODE,
                                                   updated_at := now\<rparr>;
                                ss = update_session (ss(sid \<mapsto> session)) now session;
                                code = generate_code_from_analysis env analysis
                                         (generation_options request)
                            in
                            if code = [] then error_result svc ss sid ''Failed to generate code''
                            else
                              (let session = session\<lparr>generated_code := code,
                                                      current_state := AWAITING_APPROVAL\<rparr>;
                                   ss = update_session (ss(sid \<mapsto> session)) now session
                               in (\<lparr>resp_session_id = sid,
                                     resp_current_state = AWAITING_APPROVAL,
                                     success = True,
                                     message = ''Code generated successfully. Please review and approve or provide feedback.'',
                                     resp_ticket_analysis = Some analysis,
                                     resp_generated_code = code,
                                     approval_required = True,
                                     resp_iteration_count = iteration_count session,
                                     estimated_completion = None,
                                     processing_time_ms = elapsed_ms now (created_at session),
                                     tokens_used = total_tokens_used session,
                                     warnings = []\<rparr>,
                                   svc\<lparr>sessions := ss\<rparr>)))))))"

text \<open>
  \<open>cleanup_old_sessions\<close>: \<open>age_hours = (now - created_at).total_seconds() / 3600\<close> and
  the test \<open>age_hours > max_age_hours\<close> (Python compares a float with an integer exactly).
\<close>

definition older_than :: "datetime \<Rightarrow> datetime \<Rightarrow> int \<Rightarrow> bool" where
  "older_than now t max_age_hours \<longleftrightarrow>
     round_double (total_seconds (now - t) / 3600) > of_int max_age_hours"

definition cleanup_old_sessions :: "WorkflowService \<Rightarrow> datetime \<Rightarrow> int \<Rightarrow> WorkflowService" where
  "cleanup_old_sessions svc now max_age_hours =
     svc\<lparr>sessions :=
       (\<lambda>sid. case sessions svc sid of
                None \<Rightarrow> None
              | Some session \<Rightarrow>
                  if older_than now (created_at session) max_age_hours then None
                  else Some session)\<rparr>"

text \<open>The \<open>DELETE /sessions/{session_id}\<close> endpoint: \<open>del workflow_service.sessions[session_id]\<close>.\<close>

definition delete_session :: "WorkflowService \<Rightarrow> string \<Rightarrow> WorkflowService" where
  "delete_session svc sid = svc\<lparr>sessions := (sessions svc)(sid := None)\<rparr>"

text \<open>
  The services a running process can hold: it starts with no session; \<open>initialize\<close>
  installs an LLM client; every engine operation leads from one service state to the next.
\<close>

inductive reachable :: "WorkflowService \<Rightarrow> bool" where
  initial: "reachable \<lparr>sessions = Map.empty, llm_service = None\<rparr>"
| initialize: "reachable svc \<Longrightarrow> reachable (svc\<lparr>llm_service := l\<rparr>)"
| start: "reachable svc \<Longrightarrow> reachable (snd (start_jira_agent_process svc env now sid request))"
| approval: "reachable svc \<Longrightarrow> reachable (snd (handle_user_approval svc now approval_request))"
| cleanup: "reachable svc \<Longrightarrow> reachable (cleanup_old_sessions svc now max_age_hours)"
| delete: "reachable svc \<Longrightarrow> reachable (delete_session svc sid)"

section \<open>More Python string operations\<close>

text \<open>
  \<open>str.isspace\<close> on one character, for the code points 0..255: tab, line feed, vertical
  tab, form feed, carriage return, the separators 0x1C..0x1F, space, NEL and the
  no-break space. It is also the class \<open>\s\<close> of a \<open>str\<close> pattern.
\<close>

definition is_space :: "char \<Rightarrow> bool" where
  "is_space c \<longleftrightarrow>
     (of_char c :: nat) \<in> set [9, 10, 11, 12, 13, 28, 29, 30, 31, 32, 133, 160]"

text \<open>\<open>str.lower\<close> on the code points 0..255: A..Z and the accented capitals of Latin-1.\<close>

definition lower_char :: "char \<Rightarrow> char" where
  "lower_char c =
     (let n = of_char c :: nat in
      if (65 \<le> n \<and> n \<le> 90) \<or> (192 \<le> n \<and> n \<le> 222 \<and> n \<noteq> 215)
      then char_of (n + 32) else c)"

definition lower :: "string \<Rightarrow> string" where
  "lower s = map lower_char s"

definition strip :: "string \<Rightarrow> string" where
  "strip s = rev (dropWhile is_space (rev (dropWhile is_space s)))"

text \<open>\<open>sub in s\<close>, \<open>s.startswith(p)\<close> is \<^const>\<open>prefix\<close>, \<open>s.endswith(p)\<close>.\<close>

fun contains :: "string \<Rightarrow> string \<Rightarrow> bool" where
  "contains sub [] = (sub = [])"
| "contains sub (c # cs) = (prefix sub (c # cs) \<or> contains sub cs)"

definition endswith :: "string \<Rightarrow> string \<Rightarrow> bool" where
  "endswith s suf = prefix (rev suf) (rev s)"

text \<open>\<open>s.split(sep)\<close> for a one-character separator.\<close>

fun split_on :: "char \<Rightarrow> string \<Rightarrow> string list" where
  "split_on sep [] = [[]]"
| "split_on sep (c # cs) =
     (if c = sep then [] # split_on sep cs
      else (case split_on sep cs of l # ls \<Rightarrow> (c # l) # ls | [] \<Rightarrow> [[c]]))"

text \<open>
  \<open>pathlib.Path(p).suffix\<close> on a POSIX system: the name is the last component that is
  neither empty nor \<open>.\<close>; the suffix starts at the last dot of the name, unless that dot
  is the first or the last character of the name.
\<close>

definition path_name :: "string \<Rightarrow> string" where
  "path_name p =
     (case filter (\<lambda>x. x \<noteq> [] \<and> x \<noteq> ''.'') (split_on CHR ''/'' p) of
        [] \<Rightarrow> []
      | x # xs \<Rightarrow> last (x # xs))"

definition path_suffix :: "string \<Rightarrow> string" where
  "path_suffix p =
     (let name = path_name p;
          after = length (takeWhile (\<lambda>c. c \<noteq> CHR ''.'') (rev name))
      in if after = length name then []
         else (let i = length name - 1 - after
               in if 0 < i \<and> i < length name - 1 then drop i name else []))"

section \<open>Regular expressions as Python's \<open>re\<close> matches them\<close>

text \<open>
  The two patterns of \<open>code_generator.py\<close> use literals, the classes \<open>[^\n]\<close>, \<open>.\<close>
  (under DOTALL) and \<open>\s\<close>, sequence, ordered alternation, the greedy \<open>?\<close>, \<open>*\<close> and
  \<open>+\<close> and the lazy \<open>*?\<close> on a single class, capture groups, a lookahead and \<open>$\<close>.
  The matcher returns every way to match, in the order in which a backtracking matcher
  tries them; the head of the list is the match Python reports.
\<close>

datatype cclass = Lit char | NotNewline | AnyChar | Space

datatype regex =
    Atom cclass
  | Eps
  | Seq regex regex
  | Alt regex regex
  | Opt regex
  | Star cclass
  | Plus cclass
  | LazyStar cclass
  | Group nat regex
  | Lookahead regex
  | EndOfString

text \<open>The flag is IGNORECASE.\<close>

fun cmatch :: "bool \<Rightarrow> cclass \<Rightarrow> char \<Rightarrow> bool" where
  "cmatch ic (Lit a) c = (if ic then lower_char a = lower_char c else a = c)"
| "cmatch ic NotNewline c = (c \<noteq> CHR ''\<newline>'')"
| "cmatch ic AnyChar c = True"
| "cmatch ic Space c = is_space c"

text \<open>The rests of the text after 0, 1, 2, ... characters of the class.\<close>

fun lazy_rests :: "(char \<Rightarrow> bool) \<Rightarrow> string \<Rightarrow> string list" where
  "lazy_rests p [] = [[]]"
| "lazy_rests p (c # cs) = (c # cs) # (if p c then lazy_rests p cs else [])"

type_synonym captures = "(nat \<times> string) list"

text \<open>
  A state is the rest of the text and the groups captured so far. \<open>$\<close> (without
  MULTILINE) holds at the end of the text and before a final newline.
\<close>

fun rmatch :: "bool \<Rightarrow> regex \<Rightarrow> string \<times> captures \<Rightarrow> (string \<times> captures) list" where
  "rmatch ic (Atom cl) (s, caps) =
     (case s of [] \<Rightarrow> [] | c # cs \<Rightarrow> if cmatch ic cl c then [(cs, caps)] else [])"
| "rmatch ic Eps st = [st]"
| "rmatch ic (Seq r1 r2) st = concat (map (rmatch ic r2) (rmatch ic r1 st))"
| "rmatch ic (Alt r1 r2) st = rmatch ic r1 st @ rmatch ic r2 st"
| "rmatch ic (Opt r) st = rmatch ic r st @ [st]"
| "rmatch ic (Star cl) (s, caps) = map (\<lambda>s'. (s', caps)) (rev (lazy_rests (cmatch ic cl) s))"
| "rmatch ic (Plus cl) (s, caps) =
     map (\<lambda>s'. (s', caps)) (rev (tl (lazy_rests (cmatch ic cl) s)))"
| "rmatch ic (LazyStar cl) (s, caps) = map (\<lambda>s'. (s', caps)) (lazy_rests (cmatch ic cl) s)"
| "rmatch ic (Group n r) (s, caps) =
     map (\<lambda>(s', caps'). (s', (n, take (length s - length s') s) # caps'))
         (rmatch ic r (s, caps))"
| "rmatch ic (Lookahead r) (s, caps) =
     (case rmatch ic r (s, caps) of [] \<Rightarrow> [] | (s', caps') # _ \<Rightarrow> [(s, caps')])"
| "rmatch ic EndOfString (s, caps) =
     (if s = [] \<or> s = ''\<newline>'' then [(s, caps)] else [])"

definition first_match :: "bool \<Rightarrow> regex \<Rightarrow> string \<Rightarrow> (string \<times> captures) option" where
  "first_match ic r s = (case rmatch ic r (s, []) of [] \<Rightarrow> None | m # _ \<Rightarrow> Some m)"

text \<open>The text of a group; the empty string for a group that took no part in the match.\<close>

definition group :: "captures \<Rightarrow> nat \<Rightarrow> string" where
  "group caps n = (case map_of caps n of None \<Rightarrow> [] | Some g \<Rightarrow> g)"

text \<open>
  \<open>re.finditer\<close> / \<open>re.findall\<close>: the non-overlapping matches from left to right;
  \<open>skip\<close> counts the characters still covered by the previous match. (Both patterns
  match at least one character.)
\<close>

fun scan :: "bool \<Rightarrow> regex \<Rightarrow> nat \<Rightarrow> string \<Rightarrow> captures list" where
  "scan ic r skip [] =
     (if skip = 0
      then (case first_match ic r [] of None \<Rightarrow> [] | Some (rest, caps) \<Rightarrow> [caps])
      else [])"
| "scan ic r skip (c # cs) =
     (if skip > 0 then scan ic r (skip - 1) cs
      else (case first_match ic r (c # cs) of
              None \<Rightarrow> scan ic r 0 cs
            | Some (rest, caps) \<Rightarrow> caps # scan ic r (length cs - length rest) cs))"

definition lit :: "string \<Rightarrow> regex" where
  "lit s = foldr (\<lambda>c r. Seq (Atom (Lit c)) r) s Eps"

fun alts :: "regex list \<Rightarrow> regex" where
  "alts [] = Eps"
| "alts [r] = r"
| "alts (r # r' # rs) = Alt r (alts (r' # rs))"

section \<open>CodeGeneratorService: parsing generated text (src/services/code_generator.py)\<close>

text \<open>
  \<open>file_pattern\<close> of \<open>_parse_generated_content\<close>, matched with DOTALL and IGNORECASE:
  an optional fence \<open>```lang\<close>, an optional \<open>filepath:\<close> marker, group 1 a path ending in
  a known extension (group 2), the rest of the line, group 3 the body up to the next
  marker or \<open>$\<close>.
\<close>

definition fence :: regex where
  "fence = Seq (lit ''```'')
            (Seq (Opt (alts [lit ''typescript'', lit ''javascript'', lit ''python'',
                             lit ''java'', lit ''csharp'']))
                 (Star Space))"

definition marker :: regex where
  "marker = alts
     [Seq (lit ''//'') (Seq (Star Space) (Seq (lit ''filepath:'') (Star Space))),
      Seq (lit ''#'') (Seq (Star Space) (Seq (lit ''filepath:'') (Star Space))),
      Seq (lit ''<!--'') (Seq (Star Space) (Seq (lit ''filepath:'') (Star Space)))]"

definition file_pattern :: regex where
  "file_pattern =
     Seq (Opt fence)
    (Seq (Opt marker)
    (Seq (Group 1 (Seq (Plus NotNewline) (Seq (lit ''.'')
            (Group 2 (alts [lit ''ts'', lit ''js'', lit ''py'', lit ''java'', lit ''cs'',
                            lit ''tsx'', lit ''jsx'', lit ''vue'', lit ''html'', lit ''css'',
                            lit ''scss'', lit ''json'', lit ''yaml'', lit ''yml'',
                            lit ''md''])))))
    (Seq (Star Space)
    (Seq (lit ''\<newline>'')
    (Seq (Group 3 (LazyStar AnyChar))
         (Lookahead (Alt (Seq (Opt fence) marker) EndOfString)))))))"

text \<open>The pairs \<open>(match.group(1), match.group(3))\<close> of \<open>re.finditer(file_pattern, content)\<close>.\<close>

definition finditer_file_pattern :: "string \<Rightarrow> (string \<times> string) list" where
  "finditer_file_pattern s =
     map (\<lambda>caps. (group caps 1, group caps 3)) (scan True file_pattern 0 s)"

text \<open>
  The pattern of \<open>_parse_generated_code\<close>, matched with DOTALL:
  \<open>```(?:filename:\s*([^\n]+)\n)?(.*?)```\<close>.
\<close>

definition code_pattern :: regex where
  "code_pattern =
     Seq (lit ''```'')
    (Seq (Opt (Seq (lit ''filename:'') (Seq (Star Space)
            (Seq (Group 1 (Plus NotNewline)) (lit ''\<newline>'')))))
    (Seq (Group 2 (LazyStar AnyChar)) (lit ''```'')))"

definition findall_code_pattern :: "string \<Rightarrow> (string \<times> string) list" where
  "findall_code_pattern s =
     map (\<lambda>caps. (group caps 1, group caps 2)) (scan False code_pattern 0 s)"

datatype py_error = IndexError

definition get_language_from_extension :: "string \<Rightarrow> string" where
  "get_language_from_extension extension =
     (case map_of
        [(''.ts'', ''typescript''), (''.tsx'', ''typescript''), (''.js'', ''javascript''),
         (''.jsx'', ''javascript''), (''.py'', ''python''), (''.java'', ''java''),
         (''.cs'', ''csharp''), (''.css'', ''css''), (''.scss'', ''scss''),
         (''.html'', ''html''), (''.json'', ''json''), (''.yaml'', ''yaml''),
         (''.yml'', ''yaml''), (''.md'', ''markdown'')] extension of
        None \<Rightarrow> ''text''
      | Some l \<Rightarrow> l)"

definition get_file_type :: "string \<Rightarrow> string \<Rightarrow> string" where
  "get_file_type file_path file_content =
     (let path_lower = lower file_path in
      if contains ''test'' path_lower \<or> contains ''spec'' path_lower then ''test''
      else if endswith path_lower ''.md'' then ''documentation''
      else if endswith path_lower ''.json'' \<or> endswith path_lower ''.yaml''
              \<or> endswith path_lower ''.yml'' then ''config''
      else ''source'')"

fun describe_source :: "string \<Rightarrow> string list \<Rightarrow> string" where
  "describe_source file_path [] = ''Source code file: '' @ file_path"
| "describe_source file_path (line # lines) =
     (if contains ''class '' line then ''Source file containing class definitions''
      else if contains ''function '' line \<or> contains ''def '' line
      then ''Source file containing function definitions''
      else describe_source file_path lines)"

definition generate_file_description :: "string \<Rightarrow> string \<Rightarrow> string \<Rightarrow> string" where
  "generate_file_description file_path file_content ftype =
     (if ftype = ''test'' then ''Test file for '' @ file_path
      else if ftype = ''documentation'' then ''Documentation file: '' @ file_path
      else if ftype = ''config'' then ''Configuration file: '' @ file_path
      else describe_source file_path (take 10 (split_nl file_content)))"

definition get_default_extension :: "string \<Rightarrow> string" where
  "get_default_extension lang =
     (case map_of
        [(''typescript'', ''ts''), (''javascript'', ''js''), (''python'', ''py''),
         (''java'', ''java''), (''csharp'', ''cs'')] lang of
        None \<Rightarrow> ''txt''
      | Some e \<Rightarrow> e)"

text \<open>
  The removal of the code block markers (lines 152-159). \<open>lines[0]\<close> and \<open>lines[-1]\<close>
  raise IndexError on an empty list.
\<close>

definition remove_code_block_markers :: "string \<Rightarrow> py_error + string" where
  "remove_code_block_markers file_content =
     (if prefix ''```'' file_content then
        (case split_nl file_content of
           [] \<Rightarrow> Inl IndexError
         | l0 # rest \<Rightarrow>
             (let lines = (if prefix ''```'' l0 then rest else l0 # rest) in
              case lines of
                [] \<Rightarrow> Inl IndexError
              | l # ls \<Rightarrow>
                  Inr (join ''\<newline>''
                        (if strip (last (l # ls)) = ''```'' then butlast (l # ls)
                         else l # ls))))
      else Inr file_content)"

text \<open>The body of the loop over the matches: one file per match.\<close>

definition file_of_match :: "string \<Rightarrow> string \<Rightarrow> py_error + GeneratedFile" where
  "file_of_match g1 g3 =
     (let file_path = strip g1 in
      case remove_code_block_markers (strip g3) of
        Inl e \<Rightarrow> Inl e
      | Inr file_content \<Rightarrow>
          (let file_extension = lower (path_suffix file_path);
               lang = get_language_from_extension file_extension;
               ftype = get_file_type file_path file_content
           in Inr \<lparr>path = file_path,
                   content = file_content,
                   file_type = ftype,
                   language = lang,
                   description = generate_file_description file_path file_content ftype,
                   size_lines = line_count file_content\<rparr>))"

fun files_of_matches :: "(string \<times> string) list \<Rightarrow> py_error + GeneratedFile list" where
  "files_of_matches [] = Inr []"
| "files_of_matches ((g1, g3) # ms) =
     (case file_of_match g1 g3 of
        Inl e \<Rightarrow> Inl e
      | Inr f \<Rightarrow> (case files_of_matches ms of Inl e \<Rightarrow> Inl e | Inr fs \<Rightarrow> Inr (f # fs)))"

definition parse_generated_content ::
  "string \<Rightarrow> GenerationOptions \<Rightarrow> py_error + GeneratedFile list" where
  "parse_generated_content text options =
     (case files_of_matches (finditer_file_pattern text) of
        Inl e \<Rightarrow> Inl e
      | Inr files \<Rightarrow>
          if files = [] then
            Inr [\<lparr>path = ''generated_code.'' @ get_default_extension (code_style options),
                  content = text,
                  file_type = ''source'',
                  language = code_style options,
                  description = ''Generated '' @ code_style options @ '' code for ''
                                @ framework options,
                  size_lines = line_count text\<rparr>]
          else Inr files)"

text \<open>
  \<open>_parse_generated_code\<close> (and its copy \<open>_parse_generated_code_new\<close>), the parser that
  \<open>generate_code_from_requirements\<close> runs. Its body raises nowhere, so the \<open>except\<close>
  branch that answers the empty list has no counterpart.
\<close>

definition get_file_extension :: "string \<Rightarrow> string" where
  "get_file_extension style =
     (case map_of
        [(''javascript'', ''.js''), (''typescript'', ''.ts''), (''python'', ''.py''),
         (''java'', ''.java''), (''csharp'', ''.cs''), (''cpp'', ''.cpp''), (''go'', ''.go''),
         (''rust'', ''.rs''), (''php'', ''.php''), (''ruby'', ''.rb'')] (lower style) of
        None \<Rightarrow> ''.txt''
      | Some e \<Rightarrow> e)"

definition determine_file_type :: "string \<Rightarrow> string \<Rightarrow> string" where
  "determine_file_type filename file_content =
     (let filename_lower = lower filename in
      if list_ex (\<lambda>ind. contains ind filename_lower) [''test'', ''spec'', ''__tests__'']
      then ''test''
      else if list_ex (\<lambda>ind. contains ind filename_lower) [''config'', ''settings'', ''env'']
      then ''config''
      else if list_ex (endswith filename_lower) [''.md'', ''.txt'', ''.rst'']
      then ''documentation''
      else if contains ''package.json'' filename_lower
              \<or> contains ''requirements.txt'' filename_lower
      then ''dependency''
      else ''source'')"

definition determine_language :: "string \<Rightarrow> string \<Rightarrow> string" where
  "determine_language filename default_style =
     (case map_of
        [(''.js'', ''javascript''), (''.ts'', ''typescript''), (''.py'', ''python''),
         (''.java'', ''java''), (''.cs'', ''csharp''), (''.cpp'', ''cpp''), (''.c'', ''c''),
         (''.go'', ''go''), (''.rs'', ''rust''), (''.php'', ''php''), (''.rb'', ''ruby''),
         (''.json'', ''json''), (''.yaml'', ''yaml''), (''.yml'', ''yaml''),
         (''.md'', ''markdown'')] (lower (path_suffix filename)) of
        None \<Rightarrow> default_style
      | Some l \<Rightarrow> l)"

text \<open>The loop \<open>for i, (filename, content) in enumerate(matches)\<close>.\<close>

fun code_files :: "GenerationOptions \<Rightarrow> nat \<Rightarrow> (string \<times> string) list \<Rightarrow> GeneratedFile list" where
  "code_files options i [] = []"
| "code_files options i ((filename, body) # ms) =
     (let filename = (if filename = []
                      then ''generated_file_'' @ str_int (int i + 1)
                           @ get_file_extension (code_style options)
                      else filename);
          filename = strip filename;
          body = strip body
      in (if body \<noteq> [] then
            (let ftype = determine_file_type filename body
             in [\<lparr>path = filename,
                   content = body,
                   file_type = ftype,
                   language = determine_language filename (code_style options),
                   description = ''Generated '' @ ftype @ '' file'',
                   size_lines = line_count body\<rparr>])
          else [])
         @ code_files options (Suc i) ms)"

definition parse_generated_code :: "string \<Rightarrow> GenerationOptions \<Rightarrow> GeneratedFile list" where
  "parse_generated_code response options =
     (let files = code_files options 0 (findall_code_pattern response) in
      if files = [] \<and> strip response \<noteq> [] then
        [\<lparr>path = ''main'' @ get_file_extension (code_style options),
          content = strip response,
          file_type = ''source'',
          language = code_style options,
          description = ''Main generated file'',
          size_lines = line_count response\<rparr>]
      else files)"

section \<open>JiraAgentService: the workflow registry (src/services/jira_agent_service.py)\<close>

datatype WorkflowStatus =
    INITIATED
  | ANALYZING
  | GENERATING
  | PENDING_APPROVAL
  | APPROVED_wf
  | REJECTED_wf
  | COMPLETED_wf
  | FAILED_wf

record CodeGenerationWorkflow =
  workflow_id :: string
  wf_ticket_key :: string
  wf_ticket_data :: "JiraTicketData option"
  wf_status :: WorkflowStatus
  wf_generation_options :: GenerationOptions
  wf_user_context :: UserContext
  analysis_results :: "(string \<times> string) list option"
  wf_generated_code :: "GenerationResult option"
  user_feedback :: "string option"
  iterations :: int
  wf_max_iterations :: int
  wf_created_at :: datetime
  wf_updated_at :: datetime

type_synonym workflow_map = "string \<rightharpoonup> CodeGenerationWorkflow"

definition cleanup_completed_workflows :: "workflow_map \<Rightarrow> datetime \<Rightarrow> int \<Rightarrow> workflow_map" where
  "cleanup_completed_workflows active_workflows now max_age_hours =
     (\<lambda>wid. case active_workflows wid of
               None \<Rightarrow> None
             | Some workflow \<Rightarrow>
                 if older_than now (wf_updated_at workflow) max_age_hours
                    \<and> wf_status workflow \<in> set [COMPLETED_wf, APPROVED_wf, FAILED_wf]
                 then None
                 else Some workflow)"

section \<open>Properties\<close>

text \<open>
  What holds of every session in the dictionary of a running service: it is stored under
  its own id, and it awaits approval only with files to approve.
\<close>

definition store_inv :: "session_map \<Rightarrow> bool" where
  "store_inv ss \<longleftrightarrow>
     (\<forall>sid s. ss sid = Some s \<longrightarrow>
        session_id s = sid
        \<and> (current_state s = AWAITING_APPROVAL \<longrightarrow> generated_code s \<noteq> []))"

text \<open>
  The first collaborator step of \<open>start_jira_agent_process\<close> that fails (raises or
  answers nothing), if any.
\<close>

datatype step = JiraInitialize | TicketFetch | RequirementAnalysis | CodeGeneration

definition first_failing_step :: "Collaborators \<Rightarrow> JiraAgentRequest \<Rightarrow> step option" where
  "first_failing_step env request =
     (case jira_initialize env (jira_credentials request) of
        Raises e \<Rightarrow> Some JiraInitialize
      | Returns initialized \<Rightarrow>
          if \<not> initialized then Some JiraInitialize
          else
            (case fetch_ticket env (req_ticket_key request) of
               Raises e \<Rightarrow> Some TicketFetch
             | Returns None \<Rightarrow> Some TicketFetch
             | Returns (Some ticket_data) \<Rightarrow>
                 (case analyze_ticket env ticket_data of
                    Raises e \<Rightarrow> Some RequirementAnalysis
                  | Returns None \<Rightarrow> Some RequirementAnalysis
                  | Returns (Some analysis) \<Rightarrow>
                      (case generate_code_from_requirements env (requirements analysis)
                              (technical_specs analysis) (generation_options request) of
                         Raises e \<Rightarrow> Some CodeGeneration
                       | Returns res \<Rightarrow>
                           if gr_success res \<and> generated_files res \<noteq> [] then None
                           else Some CodeGeneration))))"

subsection \<open>A concrete run\<close>

definition default_options :: GenerationOptions where
  "default_options =
     \<lparr>generate_tests = True, code_style = ''typescript'', framework = ''react'',
      test_framework = ''jest'', include_documentation = True, max_file_size = 1000,
      architecture_pattern = None, database_type = None, api_style = None\<rparr>"

definition demo_file :: GeneratedFile where
  "demo_file =
     \<lparr>path = ''a.py'', content = ''x'', file_type = ''source'', language = ''python'',
      description = ''Generated source file'', size_lines = 1\<rparr>"

definition demo_ticket :: JiraTicketData where
  "demo_ticket =
     \<lparr>key = ''ABC-1'', summary = ''Add x'', ticket_description = None, issue_type = TASK,
      priority = MEDIUM, status = TODO, assignee = None, reporter = None, labels = [],
      components = [], custom_fields = []\<rparr>"

definition demo_analysis :: JiraTicketAnalysis where
  "demo_analysis =
     \<lparr>analysis_ticket_key = ''ABC-1'', requirements = [''x''], technical_specs = [],
      acceptance_criteria = [], complexity_score = 1, estimated_files = 1,
      suggested_technologies = [], dependencies = []\<rparr>"

definition demo_result :: GenerationResult where
  "demo_result =
     \<lparr>gr_success = True, generated_files = [demo_file], test_results = [],
      gr_processing_time_ms = 0, gr_llm_tokens_used = 10, error_message = None,
      gr_warnings = []\<rparr>"

definition demo_env :: Collaborators where
  "demo_env =
     \<lparr>jira_initialize = (\<lambda>c. Returns True),
      fetch_ticket = (\<lambda>k. Returns (Some demo_ticket)),
      analyze_ticket = (\<lambda>t. Returns (Some demo_analysis)),
      generate_code_from_requirements = (\<lambda>rs ts os. Returns demo_result)\<rparr>"

text \<open>The same collaborators, with a code generator that raises.\<close>

definition failing_env :: Collaborators where
  "failing_env =
     demo_env\<lparr>generate_code_from_requirements := (\<lambda>rs ts os. Raises ''timeout'')\<rparr>"

definition demo_request :: "int \<Rightarrow> JiraAgentRequest" where
  "demo_request max_it =
     \<lparr>req_ticket_key = ''ABC-1'',
      jira_credentials = \<lparr>server_url = ''https://jira'', username = ''u'', api_token = ''t'',
                          project_key = None\<rparr>,
      generation_options = default_options,
      user_context = \<lparr>user_id = ''u'', timestamp = 0, ctx_session_id = None\<rparr>,
      session_config = Some [''max_iterations'' \<mapsto> max_it]\<rparr>"

definition demo_llm_response :: LLMResponse where
  "demo_llm_response =
     \<lparr>llm_content = ''ok'', llm_tokens_used = 7, model_used = ''m'', finish_reason = None\<rparr>"

definition demo_llm :: llm where
  "demo_llm = (\<lambda>prompt system_message max_tokens. Returns demo_llm_response)"

definition initial_service :: WorkflowService where
  "initial_service = \<lparr>sessions = Map.empty, llm_service = None\<rparr>\<lparr>llm_service := Some demo_llm\<rparr>"

text \<open>The service after \<open>start\<close> for ticket ABC-1 with the given iteration ceiling.\<close>

definition demo_service :: "int \<Rightarrow> WorkflowService" where
  "demo_service max_it =
     snd (start_jira_agent_process initial_service demo_env 0 ''s1'' (demo_request max_it))"

definition demo_session :: "int \<Rightarrow> CodeGenerationSession" where
  "demo_session max_it =
     \<lparr>session_id = ''s1'', ticket_key = ''ABC-1'', current_state = AWAITING_APPROVAL,
      iteration_count = 1, max_iterations = max_it, original_ticket = Some demo_ticket,
      ticket_analysis = Some demo_analysis, generated_code = [demo_file],
      user_feedback_history = [], created_at = 0, updated_at = 0, total_tokens_used = 0,
      error_messages = []\<rparr>"

definition demo_feedback :: "ApprovalStatus \<Rightarrow> UserFeedback" where
  "demo_feedback decision =
     \<lparr>feedback_text = ''please revise'', specific_issues = [], improvement_requests = [],
      approval_status = decision, priority_changes = []\<rparr>"

definition demo_approval :: "ApprovalStatus \<Rightarrow> ApprovalRequest" where
  "demo_approval decision = \<lparr>req_session_id = ''s1'', feedback = demo_feedback decision\<rparr>"

text \<open>The service after the session has been approved.\<close>

definition completed_service :: WorkflowService where
  "completed_service = snd (handle_user_approval (demo_service 5) 1 (demo_approval APPROVED))"

definition completed_session :: CodeGenerationSession where
  "completed_session =
     (demo_session 5)\<lparr>user_feedback_history := [demo_feedback APPROVED],
                       current_state := COMPLETED, updated_at := 1\<rparr>"

subsection \<open>The dictionary of sessions\<close>

lemma store_inv_upd:
  "store_inv ss \<Longrightarrow> session_id s = sid \<Longrightarrow>
   (current_state s = AWAITING_APPROVAL \<longrightarrow> generated_code s \<noteq> []) \<Longrightarrow>
   store_inv (ss(sid \<mapsto> s))"
  by (simp add: store_inv_def)

lemma store_inv_error:
  "store_inv ss \<Longrightarrow> store_inv (snd (create_error_response ss sid msg))"
  by (auto simp: store_inv_def create_error_response_def split: option.splits)

lemma sessions_error_result:
  "sessions (snd (error_result svc ss sid msg)) = snd (create_error_response ss sid msg)"
  by (simp add: error_result_def split: prod.splits)

lemma regenerate_fields:
  "regenerate_code_with_feedback l s fb = (code, s') \<Longrightarrow>
     session_id s' = session_id s \<and> current_state s' = current_state s
     \<and> generated_code s' = generated_code s \<and> iteration_count s' = iteration_count s"
  by (auto simp: regenerate_code_with_feedback_def Let_def split: option.splits outcome.splits)

lemma store_inv_approval:
  assumes "store_inv (sessions svc)"
  shows "store_inv (sessions (snd (handle_user_approval svc now req)))"
proof (cases "sessions svc (req_session_id req)")
  case None
  then show ?thesis using assms
    by (simp add: handle_user_approval_def sessions_error_result store_inv_error)
next
  case (Some s0)
  then have sid: "session_id s0 = req_session_id req"
    using assms by (auto simp: store_inv_def)
  show ?thesis
    using Some sid assms
    apply (simp add: handle_user_approval_def Let_def sessions_error_result update_session_def
               split: prod.splits)
    apply (intro conjI impI allI store_inv_error store_inv_upd)
    apply (auto dest!: regenerate_fields simp: store_inv_def)
    done
qed

lemma store_inv_start:
  assumes "store_inv (sessions svc)"
  shows "store_inv (sessions (snd (start_jira_agent_process svc env now sid request)))"
  using assms
  apply (simp add: start_jira_agent_process_def Let_def sessions_error_result update_session_def
      new_session_def split: option.splits outcome.splits)
  apply (intro conjI impI allI store_inv_error store_inv_upd)
  apply (auto simp: store_inv_def)
  done

lemma reachable_store_inv: "reachable svc \<Longrightarrow> store_inv (sessions svc)"
proof (induction rule: reachable.induct)
  case initial
  show ?case by (simp add: store_inv_def)
next
  case (initialize svc l)
  then show ?case by simp
next
  case (start svc env now sid request)
  then show ?case by (simp add: store_inv_start)
next
  case (approval svc now approval_request)
  then show ?case by (simp add: store_inv_approval)
next
  case (cleanup svc now max_age_hours)
  then show ?case
    by (auto simp: store_inv_def cleanup_old_sessions_def split: option.splits if_splits)
next
  case (delete svc sid)
  then show ?case by (auto simp: store_inv_def delete_session_def split: if_splits)
qed

subsection \<open>The concrete run\<close>

lemma demo_service_sessions: "sessions (demo_service m) = [''s1'' \<mapsto> demo_session m]"
  by (simp add: demo_service_def start_jira_agent_process_def demo_request_def demo_env_def
      initial_service_def Let_def new_session_def update_session_def
      generate_code_from_analysis_def demo_result_def demo_session_def demo_analysis_def)

lemma demo_service_llm: "llm_service (demo_service m) = Some demo_llm"
  by (simp add: demo_service_def start_jira_agent_process_def demo_request_def demo_env_def
      initial_service_def Let_def new_session_def update_session_def
      generate_code_from_analysis_def demo_result_def demo_analysis_def)

lemma reachable_demo: "reachable (demo_service m)"
  unfolding demo_service_def initial_service_def
  by (intro reachable.intros)

lemma completed_sessions: "sessions completed_service = [''s1'' \<mapsto> completed_session]"
  by (simp add: completed_service_def handle_user_approval_def demo_service_sessions
      demo_approval_def demo_feedback_def Let_def update_session_def completed_session_def
      demo_session_def)

subsection \<open>Approval\<close>

text \<open>
  C1 (as the code has it). \<open>handle_user_approval\<close> never reads the session's current
  state. An unknown session id is refused with no change to the service. For a session that
  exists, the answer and the service after the call are the same whatever state the session
  was in (awaiting approval or not, completed and failed included), and whatever the
  decision, the feedback joins the session's history. With an approval the answer reports
  success, the session is COMPLETED, and its iteration count and files are as before.
\<close>

theorem approval_without_state_check:
  "(sessions svc (req_session_id req) = None \<longrightarrow>
      \<not> success (fst (handle_user_approval svc now req))
      \<and> message (fst (handle_user_approval svc now req)) = ''Session not found''
      \<and> snd (handle_user_approval svc now req) = svc)
   \<and> (\<forall>s. sessions svc (req_session_id req) = Some s \<longrightarrow>
         (\<forall>st. handle_user_approval
                 (svc\<lparr>sessions := (sessions svc)(req_session_id req \<mapsto> s\<lparr>current_state := st\<rparr>)\<rparr>)
                 now req
               = handle_user_approval svc now req)
         \<and> (\<exists>s'. sessions (snd (handle_user_approval svc now req)) (req_session_id req) = Some s'
                \<and> user_feedback_history s' = user_feedback_history s @ [feedback req]))
   \<and> (\<forall>s. sessions svc (req_session_id req) = Some s
           \<and> session_id s = req_session_id req
           \<and> approval_status (feedback req) = APPROVED \<longrightarrow>
        success (fst (handle_user_approval svc now req))
        \<and> resp_current_state (fst (handle_user_approval svc now req)) = COMPLETED
        \<and> sessions (snd (handle_user_approval svc now req)) (req_session_id req) =
            Some (s\<lparr>user_feedback_history := user_feedback_history s @ [feedback req],
                     current_state := COMPLETED, updated_at := now\<rparr>))"
proof (intro conjI allI impI)
  assume "sessions svc (req_session_id req) = None"
  then show "\<not> success (fst (handle_user_approval svc now req))"
    and "message (fst (handle_user_approval svc now req)) = ''Session not found''"
    and "snd (handle_user_approval svc now req) = svc"
    by (simp_all add: handle_user_approval_def error_result_def create_error_response_def)
next
  fix s st
  assume s: "sessions svc (req_session_id req) = Some s"
  show "handle_user_approval
          (svc\<lparr>sessions := (sessions svc)(req_session_id req \<mapsto> s\<lparr>current_state := st\<rparr>)\<rparr>)
          now req
        = handle_user_approval svc now req"
    using s
    by (simp add: handle_user_approval_def Let_def update_session_def error_result_def
        create_error_response_def regenerate_code_with_feedback_def
        build_improvement_prompt_def
        split: option.splits outcome.splits)
next
  fix s
  assume s: "sessions svc (req_session_id req) = Some s"
  obtain code s2 where r: "regenerate_code_with_feedback (llm_service svc)
      (s\<lparr>user_feedback_history := user_feedback_history s @ [feedback req],
         current_state := INCORPORATING_FEEDBACK,
         iteration_count := iteration_count s + 1, updated_at := now\<rparr>) (feedback req)
      = (code, s2)"
    by (cases "regenerate_code_with_feedback (llm_service svc)
      (s\<lparr>user_feedback_history := user_feedback_history s @ [feedback req],
         current_state := INCORPORATING_FEEDBACK,
         iteration_count := iteration_count s + 1, updated_at := now\<rparr>) (feedback req)")
  have h: "user_feedback_history s2 = user_feedback_history s @ [feedback req]"
    using r
    by (auto simp: regenerate_code_with_feedback_def Let_def
        split: option.splits outcome.splits)
  show "\<exists>s'. sessions (snd (handle_user_approval svc now req)) (req_session_id req) = Some s'
          \<and> user_feedback_history s' = user_feedback_history s @ [feedback req]"
    using s r h
    by (auto simp: handle_user_approval_def Let_def update_session_def error_result_def
        create_error_response_def)
next
  fix s
  assume "sessions svc (req_session_id req) = Some s
           \<and> session_id s = req_session_id req
           \<and> approval_status (feedback req) = APPROVED"
  then show "success (fst (handle_user_approval svc now req))"
    and "resp_current_state (fst (handle_user_approval svc now req)) = COMPLETED"
    and "sessions (snd (handle_user_approval svc now req)) (req_session_id req) =
            Some (s\<lparr>user_feedback_history := user_feedback_history s @ [feedback req],
                     current_state := COMPLETED, updated_at := now\<rparr>)"
    by (simp_all add: handle_user_approval_def Let_def update_session_def)
qed

text \<open>
  The cases at concrete inputs: an unknown id on the fresh service; a rejection of the
  session that is already COMPLETED, which is processed as it would be were the session
  awaiting approval, its feedback recorded; and a second approval of that session.
\<close>

theorem approval_without_state_check_witness:
  "sessions initial_service (req_session_id (demo_approval APPROVED)) = None
   \<and> \<not> success (fst (handle_user_approval initial_service 2 (demo_approval APPROVED)))
   \<and> snd (handle_user_approval initial_service 2 (demo_approval APPROVED)) = initial_service
   \<and> sessions completed_service (req_session_id (demo_approval REJECTED)) = Some completed_session
   \<and> current_state completed_session = COMPLETED
   \<and> handle_user_approval
        (completed_service\<lparr>sessions := (sessions completed_service)
           (req_session_id (demo_approval REJECTED) \<mapsto>
              completed_session\<lparr>current_state := AWAITING_APPROVAL\<rparr>)\<rparr>)
        2 (demo_approval REJECTED)
      = handle_user_approval completed_service 2 (demo_approval REJECTED)
   \<and> (\<exists>s'. sessions (snd (handle_user_approval completed_service 2 (demo_approval REJECTED)))
              (req_session_id (demo_approval REJECTED)) = Some s'
          \<and> user_feedback_history s' =
              user_feedback_history completed_session @ [feedback (demo_approval REJECTED)])
   \<and> sessions completed_service (req_session_id (demo_approval APPROVED)) = Some completed_session
   \<and> session_id completed_session = req_session_id (demo_approval APPROVED)
   \<and> approval_status (feedback (demo_approval APPROVED)) = APPROVED
   \<and> success (fst (handle_user_approval completed_service 2 (demo_approval APPROVED)))
   \<and> sessions (snd (handle_user_approval completed_service 2 (demo_approval APPROVED)))
        (req_session_id (demo_approval APPROVED)) =
       Some (completed_session\<lparr>user_feedback_history :=
                user_feedback_history completed_session @ [feedback (demo_approval APPROVED)],
              current_state := COMPLETED, updated_at := 2\<rparr>)"
proof -
  have n: "sessions initial_service (req_session_id (demo_approval APPROVED)) = None"
    by (simp add: initial_service_def)
  have s: "sessions completed_service (req_session_id (demo_approval APPROVED))
             = Some completed_session"
    by (simp add: completed_sessions demo_approval_def)
  have r: "sessions completed_service (req_session_id (demo_approval REJECTED))
             = Some completed_session"
    by (simp add: completed_sessions demo_approval_def)
  have i: "session_id completed_session = req_session_id (demo_approval APPROVED)"
    by (simp add: completed_session_def demo_session_def demo_approval_def)
  have a: "approval_status (feedback (demo_approval APPROVED)) = APPROVED"
    by (simp add: demo_approval_def demo_feedback_def)
  have c: "current_state completed_session = COMPLETED"
    by (simp add: completed_session_def)
  from approval_without_state_check [of initial_service "demo_approval APPROVED" 2] n
    approval_without_state_check [of completed_service "demo_approval REJECTED" 2] r
    approval_without_state_check [of completed_service "demo_approval APPROVED" 2] s i a c
  show ?thesis by blast
qed

text \<open>
  C1 as stated fails: the session of the concrete run has been approved and is COMPLETED;
  approving it again is answered with success, and the stored session is no longer the one
  before the call (its feedback history has grown).
\<close>

theorem approval_on_completed_session:
  "sessions completed_service ''s1'' = Some completed_session
   \<and> current_state completed_session = COMPLETED
   \<and> success (fst (handle_user_approval completed_service 2 (demo_approval APPROVED)))
   \<and> sessions (snd (handle_user_approval completed_service 2 (demo_approval APPROVED))) ''s1''
       \<noteq> Some completed_session"
  by (simp add: handle_user_approval_def completed_sessions demo_approval_def demo_feedback_def
      Let_def update_session_def completed_session_def demo_session_def)

text \<open>
  C2. For a session awaiting approval whose iteration count has reached \<open>max_iterations\<close>, a
  rejection leaves the session FAILED with its iteration count unchanged, and the answer is
  a failure whose message is \<open>Maximum iterations (N) reached without approval\<close> with N the
  session's \<open>max_iterations\<close>; the message is also recorded on the session.
\<close>

theorem rejection_at_ceiling:
  assumes "sessions svc (req_session_id req) = Some s"
      and "current_state s = AWAITING_APPROVAL"
      and "iteration_count s \<ge> max_iterations s"
      and "approval_status (feedback req) = REJECTED"
  shows "\<exists>s'. sessions (snd (handle_user_approval svc now req)) (req_session_id req) = Some s'
          \<and> current_state s' = FAILED
          \<and> iteration_count s' = iteration_count s
          \<and> error_messages s' = error_messages s @ [message (fst (handle_user_approval svc now req))]
          \<and> \<not> success (fst (handle_user_approval svc now req))
          \<and> resp_current_state (fst (handle_user_approval svc now req)) = FAILED
          \<and> message (fst (handle_user_approval svc now req)) =
              ''Maximum iterations ('' @ str_int (max_iterations s) @ '') reached without approval''"
  using assms
  by (auto simp: handle_user_approval_def Let_def error_result_def create_error_response_def
      update_session_def)

lemma str_int_1: "str_int 1 = ''1''"
  by (simp add: str_int_def str_nat.simps)

text \<open>
  The run with ceiling 1: the first rejection fails the session and the message names 1.
\<close>

theorem rejection_at_ceiling_witness:
  "sessions (demo_service 1) (req_session_id (demo_approval REJECTED)) = Some (demo_session 1)
   \<and> current_state (demo_session 1) = AWAITING_APPROVAL
   \<and> iteration_count (demo_session 1) \<ge> max_iterations (demo_session 1)
   \<and> approval_status (feedback (demo_approval REJECTED)) = REJECTED
   \<and> (\<exists>s'. sessions (snd (handle_user_approval (demo_service 1) 1 (demo_approval REJECTED)))
              (req_session_id (demo_approval REJECTED)) = Some s'
          \<and> current_state s' = FAILED
          \<and> iteration_count s' = 1
          \<and> \<not> success (fst (handle_user_approval (demo_service 1) 1 (demo_approval REJECTED)))
          \<and> message (fst (handle_user_approval (demo_service 1) 1 (demo_approval REJECTED))) =
              ''Maximum iterations (1) reached without approval'')"
proof -
  have h1: "sessions (demo_service 1) (req_session_id (demo_approval REJECTED))
              = Some (demo_session 1)"
    by (simp add: demo_service_sessions demo_approval_def)
  have h2: "current_state (demo_session 1) = AWAITING_APPROVAL"
    by (simp add: demo_session_def)
  have h3: "iteration_count (demo_session 1) \<ge> max_iterations (demo_session 1)"
    by (simp add: demo_session_def)
  have h4: "approval_status (feedback (demo_approval REJECTED)) = REJECTED"
    by (simp add: demo_approval_def demo_feedback_def)
  have m: "max_iterations (demo_session 1) = 1" "iteration_count (demo_session 1) = 1"
    by (simp_all add: demo_session_def)
  from rejection_at_ceiling [OF h1 h2 h3 h4, of 1] h1 h2 h3 h4
  show ?thesis unfolding m str_int_1 by auto
qed

text \<open>
  C3. For a session of a running service that awaits approval below its ceiling, when the
  LLM client is installed and answers the revision request, a rejection ends with the
  session awaiting approval again, its iteration count one higher, and a non-empty file
  list on the session and in the answer.
\<close>

theorem rejection_below_ceiling:
  assumes reach: "reachable svc"
      and sess: "sessions svc (req_session_id req) = Some s"
      and st: "current_state s = AWAITING_APPROVAL"
      and it: "iteration_count s < max_iterations s"
      and rej: "approval_status (feedback req) = REJECTED"
      and llm: "llm_service svc = Some l"
      and ok: "l (build_improvement_prompt s (feedback req)) improver_system_message 3000 = Returns r"
  shows "\<exists>s'. sessions (snd (handle_user_approval svc now req)) (req_session_id req) = Some s'
          \<and> current_state s' = AWAITING_APPROVAL
          \<and> iteration_count s' = iteration_count s + 1
          \<and> generated_code s' \<noteq> []
          \<and> resp_generated_code (fst (handle_user_approval svc now req)) = generated_code s'
          \<and> success (fst (handle_user_approval svc now req))
          \<and> resp_current_state (fst (handle_user_approval svc now req)) = AWAITING_APPROVAL
          \<and> resp_iteration_count (fst (handle_user_approval svc now req)) = iteration_count s + 1"
proof -
  from reachable_store_inv [OF reach] sess st
  have sid: "session_id s = req_session_id req" and ne: "generated_code s \<noteq> []"
    by (auto simp: store_inv_def)
  show ?thesis
    using sess st it rej llm ok sid ne
    by (simp add: handle_user_approval_def Let_def regenerate_code_with_feedback_def
          build_improvement_prompt_def parse_improved_code_response_def update_session_def)
qed

text \<open>
  The run with ceiling 5: the first rejection leads to iteration 2.
\<close>

theorem rejection_below_ceiling_witness:
  "reachable (demo_service 5)
   \<and> sessions (demo_service 5) (req_session_id (demo_approval REJECTED)) = Some (demo_session 5)
   \<and> current_state (demo_session 5) = AWAITING_APPROVAL
   \<and> iteration_count (demo_session 5) < max_iterations (demo_session 5)
   \<and> approval_status (feedback (demo_approval REJECTED)) = REJECTED
   \<and> llm_service (demo_service 5) = Some demo_llm
   \<and> demo_llm (build_improvement_prompt (demo_session 5) (feedback (demo_approval REJECTED)))
        improver_system_message 3000 = Returns demo_llm_response
   \<and> (\<exists>s'. sessions (snd (handle_user_approval (demo_service 5) 1 (demo_approval REJECTED)))
              (req_session_id (demo_approval REJECTED)) = Some s'
          \<and> current_state s' = AWAITING_APPROVAL
          \<and> iteration_count s' = 2
          \<and> generated_code s' \<noteq> []
          \<and> resp_generated_code (fst (handle_user_approval (demo_service 5) 1 (demo_approval REJECTED)))
              = generated_code s'
          \<and> success (fst (handle_user_approval (demo_service 5) 1 (demo_approval REJECTED))))"
proof -
  have h1: "sessions (demo_service 5) (req_session_id (demo_approval REJECTED))
              = Some (demo_session 5)"
    by (simp add: demo_service_sessions demo_approval_def)
  have h2: "current_state (demo_session 5) = AWAITING_APPROVAL"
    by (simp add: demo_session_def)
  have h3: "iteration_count (demo_session 5) < max_iterations (demo_session 5)"
    by (simp add: demo_session_def)
  have h4: "approval_status (feedback (demo_approval REJECTED)) = REJECTED"
    by (simp add: demo_approval_def demo_feedback_def)
  have h5: "demo_llm (build_improvement_prompt (demo_session 5) (feedback (demo_approval REJECTED)))
        improver_system_message 3000 = Returns demo_llm_response"
    by (simp add: demo_llm_def)
  have i: "iteration_count (demo_session 5) + 1 = 2"
    by (simp add: demo_session_def)
  from rejection_below_ceiling [OF reachable_demo h1 h2 h3 h4 demo_service_llm h5, of 1]
    reachable_demo [of 5] h1 h2 h3 h4 h5 demo_service_llm [of 5]
  show ?thesis unfolding i by auto
qed

subsection \<open>Feedback incorporation\<close>

text \<open>
  C4 (as the code has it). When the LLM answers the revision request, feedback
  incorporation returns the session's current files rewritten in place, one for one: each
  keeps its path, kind and language, its content becomes a header comment, the old content
  and the first 200 characters of the LLM's text, and its description is marked as an
  improved version. The text is not parsed into files. The tokens the LLM reports are
  added to the session's counter.
\<close>

theorem incorporation_rewrites_files:
  assumes "l (build_improvement_prompt s fb) improver_system_message 3000 = Returns r"
  shows "length (fst (regenerate_code_with_feedback (Some l) s fb)) = length (generated_code s)
       \<and> map path (fst (regenerate_code_with_feedback (Some l) s fb))
           = map path (generated_code s)
       \<and> map file_type (fst (regenerate_code_with_feedback (Some l) s fb))
           = map file_type (generated_code s)
       \<and> map language (fst (regenerate_code_with_feedback (Some l) s fb))
           = map language (generated_code s)
       \<and> map content (fst (regenerate_code_with_feedback (Some l) s fb))
           = map (\<lambda>f. ''// Improved based on user feedback\<newline>'' @ content f
                        @ ''\<newline>\<newline>// Additional improvements:\<newline>// ''
                        @ take 200 (llm_content r) @ ''...'') (generated_code s)
       \<and> map description (fst (regenerate_code_with_feedback (Some l) s fb))
           = map (\<lambda>f. ''Improved version: '' @ description f) (generated_code s)
       \<and> snd (regenerate_code_with_feedback (Some l) s fb) =
           s\<lparr>total_tokens_used := total_tokens_used s + llm_tokens_used r\<rparr>"
  using assms
  by (simp add: regenerate_code_with_feedback_def parse_improved_code_response_def
      improved_file_def Let_def comp_def)

text \<open>
  The concrete run: the file \<open>a.py\<close> is rewritten around the answer \<open>ok\<close>, 7 tokens are
  counted.
\<close>

theorem incorporation_rewrites_files_witness:
  "demo_llm (build_improvement_prompt (demo_session 5) (demo_feedback REJECTED))
      improver_system_message 3000 = Returns demo_llm_response
   \<and> map path (fst (regenerate_code_with_feedback (Some demo_llm) (demo_session 5)
                      (demo_feedback REJECTED))) = [''a.py'']
   \<and> map content (fst (regenerate_code_with_feedback (Some demo_llm) (demo_session 5)
                      (demo_feedback REJECTED))) =
       [''// Improved based on user feedback\<newline>x\<newline>\<newline>// Additional improvements:\<newline>// ok...'']
   \<and> total_tokens_used (snd (regenerate_code_with_feedback (Some demo_llm) (demo_session 5)
                      (demo_feedback REJECTED))) = 7"
proof -
  have h: "demo_llm (build_improvement_prompt (demo_session 5) (demo_feedback REJECTED))
      improver_system_message 3000 = Returns demo_llm_response"
    by (simp add: demo_llm_def)
  from incorporation_rewrites_files
    [of demo_llm "demo_session 5" "demo_feedback REJECTED" demo_llm_response, OF h] h
  show ?thesis
    by (simp add: demo_session_def demo_file_def demo_llm_response_def)
qed

lemma extraction_of_ok:
  "map path (parse_generated_code ''ok'' default_options) = [''main.ts'']"
  "parse_generated_content ''ok'' default_options =
     Inr [\<lparr>path = ''generated_code.ts'', content = ''ok'', file_type = ''source'',
           language = ''typescript'', description = ''Generated typescript code for react'',
           size_lines = 1\<rparr>]"
  by code_simp+

text \<open>
  C4 as stated fails: on the answer \<open>ok\<close> both parsers of generated text produce a single
  default file (\<open>main.ts\<close>, \<open>generated_code.ts\<close>), while feedback incorporation returns
  the rewritten \<open>a.py\<close>.
\<close>

theorem incorporation_is_not_extraction:
  "fst (regenerate_code_with_feedback (Some demo_llm) (demo_session 5) (demo_feedback REJECTED))
     \<noteq> parse_generated_code (llm_content demo_llm_response) default_options
   \<and> Inr (fst (regenerate_code_with_feedback (Some demo_llm) (demo_session 5)
               (demo_feedback REJECTED)))
     \<noteq> parse_generated_content (llm_content demo_llm_response) default_options"
proof -
  have p: "map path (fst (regenerate_code_with_feedback (Some demo_llm) (demo_session 5)
             (demo_feedback REJECTED))) = [''a.py'']"
    by (simp add: regenerate_code_with_feedback_def demo_llm_def Let_def demo_session_def
        parse_improved_code_response_def improved_file_def demo_file_def)
  have c: "llm_content demo_llm_response = ''ok''"
    by (simp add: demo_llm_response_def)
  have "map path (fst (regenerate_code_with_feedback (Some demo_llm) (demo_session 5)
             (demo_feedback REJECTED))) \<noteq> map path (parse_generated_code ''ok'' default_options)"
    unfolding p extraction_of_ok by simp
  moreover have "Inr (fst (regenerate_code_with_feedback (Some demo_llm) (demo_session 5)
               (demo_feedback REJECTED))) \<noteq> parse_generated_content ''ok'' default_options"
    unfolding extraction_of_ok using p by auto
  ultimately show ?thesis unfolding c by auto
qed

text \<open>
  C10. The revised list has the length of the original one, and file by file the same
  path, kind and language, in the same order.
\<close>

theorem revision_keeps_files:
  "length (parse_improved_code_response response files) = length files
   \<and> map path (parse_improved_code_response response files) = map path files
   \<and> map file_type (parse_improved_code_response response files) = map file_type files
   \<and> map language (parse_improved_code_response response files) = map language files"
  by (simp add: parse_improved_code_response_def improved_file_def comp_def)

subsection \<open>Cleanup\<close>

lemma cleanup_old_sessions_removed:
  "sessions (cleanup_old_sessions svc now h) sid = None \<longleftrightarrow>
     (case sessions svc sid of None \<Rightarrow> True | Some s \<Rightarrow> older_than now (created_at s) h)"
  by (simp add: cleanup_old_sessions_def split: option.splits)

lemma cleanup_completed_workflows_keeps_active:
  "wfs wid = Some w \<Longrightarrow> wf_status w \<notin> {COMPLETED_wf, APPROVED_wf, FAILED_wf} \<Longrightarrow>
   cleanup_completed_workflows wfs now h wid = Some w"
  by (simp add: cleanup_completed_workflows_def)

text \<open>
  C5 at a concrete input: the session of the concrete run awaits approval and was created
  at time 0; a cleanup with a threshold of 24 hours, 25 hours later, removes it.
\<close>

theorem cleanup_removes_awaiting_session:
  "sessions (demo_service 5) ''s1'' = Some (demo_session 5)
   \<and> current_state (demo_session 5) = AWAITING_APPROVAL
   \<and> sessions (cleanup_old_sessions (demo_service 5) (25 * 3600 * 1000000) 24) ''s1'' = None"
proof -
  have "older_than (25 * 3600 * 1000000) 0 24"
    by code_simp
  then show ?thesis
    by (simp add: demo_service_sessions cleanup_old_sessions_def demo_session_def)
qed

subsection \<open>Line counts\<close>

text \<open>
  C8 at a concrete input: the file of the concrete run has one line and \<open>size_lines = 1\<close>;
  after a rejection answered by \<open>ok\<close> the revised file has 5 lines of content and
  \<open>size_lines = 6\<close>.
\<close>

theorem revision_size_lines:
  "size_lines demo_file = line_count (content demo_file)
   \<and> map size_lines (resp_generated_code
        (fst (handle_user_approval (demo_service 5) 1 (demo_approval REJECTED)))) = [6]
   \<and> map (\<lambda>f. line_count (content f)) (resp_generated_code
        (fst (handle_user_approval (demo_service 5) 1 (demo_approval REJECTED)))) = [5]"
  by (simp add: handle_user_approval_def demo_service_sessions demo_service_llm demo_approval_def
      demo_feedback_def Let_def update_session_def demo_session_def demo_llm_def
      regenerate_code_with_feedback_def parse_improved_code_response_def improved_file_def
      demo_file_def demo_llm_response_def line_count_def)

subsection \<open>Extraction\<close>

text \<open>
  C6 at a concrete input: in the text \<open>a.py\<close>, newline, three backquotes the pattern finds
  the file \<open>a.py\<close> whose body is the fence alone; removing the markers reads the last of
  no lines, and \<open>_parse_generated_content\<close> raises IndexError.
\<close>

theorem parse_generated_content_raises:
  "finditer_file_pattern ''a.py\<newline>```'' = [(''a.py'', ''```'')]
   \<and> remove_code_block_markers ''```'' = Inl IndexError
   \<and> parse_generated_content ''a.py\<newline>```'' default_options = Inl IndexError"
  by code_simp

text \<open>
  C7 as stated fails: the empty text has no file block, and \<open>_parse_generated_code\<close>
  answers the empty list.
\<close>

theorem parse_generated_code_empty:
  "findall_code_pattern [] = [] \<and> parse_generated_code [] default_options = []"
  by code_simp

text \<open>
  C7 (as the code has it). When \<open>file_pattern\<close> matches nowhere,
  \<open>_parse_generated_content\<close> returns exactly one file: the whole text, kind source, named
  \<open>generated_code.\<close> plus the default extension of the requested style; so whatever list it
  returns is non-empty. When its pattern matches nowhere, \<open>_parse_generated_code\<close>
  returns one file \<open>main\<close> plus extension holding the text stripped of surrounding
  whitespace, kind source, and no file at all for a blank text.
\<close>

theorem fallback_artifact:
  "(finditer_file_pattern text = [] \<longrightarrow>
      parse_generated_content text options =
        Inr [\<lparr>path = ''generated_code.'' @ get_default_extension (code_style options),
              content = text,
              file_type = ''source'',
              language = code_style options,
              description = ''Generated '' @ code_style options @ '' code for ''
                            @ framework options,
              size_lines = line_count text\<rparr>])
   \<and> (\<forall>files. parse_generated_content text options = Inr files \<longrightarrow> files \<noteq> [])
   \<and> (findall_code_pattern text = [] \<longrightarrow>
        parse_generated_code text options =
          (if strip text = [] then []
           else [\<lparr>path = ''main'' @ get_file_extension (code_style options),
                   content = strip text,
                   file_type = ''source'',
                   language = code_style options,
                   description = ''Main generated file'',
                   size_lines = line_count text\<rparr>]))"
proof (intro conjI impI allI)
  assume "finditer_file_pattern text = []"
  then show "parse_generated_content text options =
        Inr [\<lparr>path = ''generated_code.'' @ get_default_extension (code_style options),
              content = text, file_type = ''source'', language = code_style options,
              description = ''Generated '' @ code_style options @ '' code for ''
                            @ framework options,
              size_lines = line_count text\<rparr>]"
    by (simp add: parse_generated_content_def)
next
  fix files
  assume "parse_generated_content text options = Inr files"
  then show "files \<noteq> []"
    by (auto simp: parse_generated_content_def split: sum.splits if_splits)
next
  assume "findall_code_pattern text = []"
  then show "parse_generated_code text options =
          (if strip text = [] then []
           else [\<lparr>path = ''main'' @ get_file_extension (code_style options),
                   content = strip text, file_type = ''source'',
                   language = code_style options, description = ''Main generated file'',
                   size_lines = line_count text\<rparr>])"
    by (simp add: parse_generated_code_def)
qed

lemma no_boundaries_in_ok:
  "finditer_file_pattern '' ok'' = []" "findall_code_pattern '' ok'' = []"
  "strip '' ok'' = ''ok''" "line_count '' ok'' = 1"
  "get_default_extension (code_style default_options) = ''ts''"
  "get_file_extension (code_style default_options) = ''.ts''"
  by code_simp+

text \<open>
  The text \<open> ok\<close> has no boundary for either parser: one keeps the text, the other strips
  it.
\<close>

theorem fallback_artifact_witness:
  "finditer_file_pattern '' ok'' = []
   \<and> parse_generated_content '' ok'' default_options =
        Inr [\<lparr>path = ''generated_code.ts'', content = '' ok'', file_type = ''source'',
              language = ''typescript'',
              description = ''Generated typescript code for react'', size_lines = 1\<rparr>]
   \<and> findall_code_pattern '' ok'' = []
   \<and> parse_generated_code '' ok'' default_options =
        [\<lparr>path = ''main.ts'', content = ''ok'', file_type = ''source'',
          language = ''typescript'', description = ''Main generated file'', size_lines = 1\<rparr>]"
  using fallback_artifact [of "'' ok''" default_options] no_boundaries_in_ok
  by (simp add: default_options_def)

subsection \<open>Start\<close>

text \<open>
  C9. When a collaborator step of \<open>start_jira_agent_process\<close> fails (raises, or answers
  nothing), the call returns a failure response, the session is stored FAILED with the
  response's message as its error list, and what the earlier steps produced is kept: the
  ticket once it was fetched, the analysis once it was made.
\<close>

theorem start_failure:
  assumes cfg: "session_config request = Some cfg"
      and failing: "first_failing_step env request = Some st"
  shows "\<not> success (fst (start_jira_agent_process svc env now sid request))
       \<and> resp_current_state (fst (start_jira_agent_process svc env now sid request)) = FAILED
       \<and> (\<exists>s'. sessions (snd (start_jira_agent_process svc env now sid request)) sid = Some s'
            \<and> current_state s' = FAILED
            \<and> error_messages s' = [message (fst (start_jira_agent_process svc env now sid request))]
            \<and> (case st of
                  JiraInitialize \<Rightarrow> original_ticket s' = None \<and> ticket_analysis s' = None
                | TicketFetch \<Rightarrow> original_ticket s' = None \<and> ticket_analysis s' = None
                | RequirementAnalysis \<Rightarrow>
                    original_ticket s' \<noteq> None
                    \<and> fetch_ticket env (req_ticket_key request) = Returns (original_ticket s')
                    \<and> ticket_analysis s' = None
                | CodeGeneration \<Rightarrow>
                    (\<exists>t. original_ticket s' = Some t
                        \<and> fetch_ticket env (req_ticket_key request) = Returns (Some t)
                        \<and> ticket_analysis s' \<noteq> None
                        \<and> analyze_ticket env t = Returns (ticket_analysis s'))))"
  using assms
  by (auto simp: start_jira_agent_process_def first_failing_step_def Let_def error_result_def
      create_error_response_def update_session_def new_session_def generate_code_from_analysis_def
      split: outcome.splits option.splits if_splits)

text \<open>
  The run whose code generator raises: the session is FAILED and keeps ticket and analysis.
\<close>

theorem start_failure_witness:
  "session_config (demo_request 5) = Some [''max_iterations'' \<mapsto> 5]
   \<and> first_failing_step failing_env (demo_request 5) = Some CodeGeneration
   \<and> \<not> success (fst (start_jira_agent_process initial_service failing_env 0 ''s1'' (demo_request 5)))
   \<and> (\<exists>s'. sessions (snd (start_jira_agent_process initial_service failing_env 0 ''s1''
                            (demo_request 5))) ''s1'' = Some s'
          \<and> current_state s' = FAILED
          \<and> error_messages s' = [''Failed to generate code'']
          \<and> original_ticket s' = Some demo_ticket
          \<and> ticket_analysis s' = Some demo_analysis)"
proof -
  have c: "session_config (demo_request 5) = Some [''max_iterations'' \<mapsto> 5]"
    by (simp add: demo_request_def)
  have f: "first_failing_step failing_env (demo_request 5) = Some CodeGeneration"
    by (simp add: first_failing_step_def failing_env_def demo_env_def)
  have m: "message (fst (start_jira_agent_process initial_service failing_env 0 ''s1''
             (demo_request 5))) = ''Failed to generate code''"
    by (simp add: start_jira_agent_process_def demo_request_def failing_env_def demo_env_def
        Let_def generate_code_from_analysis_def error_result_def create_error_response_def
        update_session_def new_session_def)
  have e: "fetch_ticket failing_env k = Returns (Some demo_ticket)"
    "analyze_ticket failing_env t = Returns (Some demo_analysis)" for k t
    by (simp_all add: failing_env_def demo_env_def)
  from start_failure [OF c f, of initial_service 0 "''s1''"] c f
  show ?thesis unfolding m e by auto
qed

end
